theory Spec2Isabelle
  imports Complex_Main
begin

section \<open>The server-side Entity class\<close>

text \<open>
  The class \<open>Entity\<close> is embedded as a record with one function per method. A method
  that assigns to \<open>this\<close> returns the updated record. Names follow the source; the
  fields \<open>id\<close>, \<open>type\<close>, \<open>instance\<close>, \<open>x\<close> and \<open>y\<close> carry the suffix \<open>_e\<close>.

  Modelling decisions.
  \<^item> Fields the source declares as \<open>any\<close> and uses as data (\<open>specialState\<close>,
    \<open>customScale\<close>, \<open>combat\<close>, \<open>roaming\<close>) hold a JavaScript value \<open>jsval\<close>;
    a field that was never assigned holds \<open>JUndefined\<close>. Numbers are reals: NaN and
    the infinities are outside the model.
  \<^item> Coordinates and ids are integers.
  \<^item> \<open>invisibles\<close> is the dictionary object created as \<open>{}\<close> by the constructor:
    own keys, each an instance string holding a reference to an entity, and a
    prototype, whose names the operator \<open>in\<close> finds as well.
  \<^item> \<open>invisiblesIds\<close> is the array created as \<open>[]\<close>, a list of ids in push order.
  \<^item> \<open>setPositionCallback\<close> holds what \<open>onSetPosition\<close> was given, a function
    object or any other value, and is undefined before the first registration. A
    function is called with the entity as its receiver, so it can read and write the
    entity's fields.
\<close>

datatype jsval = JUndefined | JNull | JBool bool | JNum real | JStr string

text \<open>JavaScript truthiness, as used by \<open>if (v)\<close>.\<close>

fun truthy :: "jsval \<Rightarrow> bool" where
  "truthy JUndefined = False"
| "truthy JNull = False"
| "truthy (JBool b) = b"
| "truthy (JNum n) = (n \<noteq> 0)"
| "truthy (JStr s) = (s \<noteq> [])"

datatype error = Error string | TypeError string | ThrownValue jsval

type_synonym ref = nat

subsection \<open>The dictionary of hidden instances\<close>

text \<open>
  A dictionary object has own keys and a prototype. The literal \<open>{}\<close> has no own key
  and the prototype \<open>Object.prototype\<close>, written \<open>proto = None\<close>; \<open>proto = Some r\<close>
  is a dictionary whose prototype has become the entity object at \<open>r\<close>.
\<close>

record dict =
  own :: "string \<rightharpoonup> ref"
  proto :: "ref option"

definition empty_dict :: dict where
  "empty_dict = \<lparr> own = Map.empty, proto = None \<rparr>"

text \<open>The property names of \<open>Object.prototype\<close>, which every object inherits.\<close>

definition objectPrototypeNames :: "string list" where
  "objectPrototypeNames =
     [''constructor'', ''__defineGetter__'', ''__defineSetter__'', ''hasOwnProperty'',
      ''__lookupGetter__'', ''__lookupSetter__'', ''isPrototypeOf'',
      ''propertyIsEnumerable'', ''toString'', ''valueOf'', ''__proto__'',
      ''toLocaleString'']"

text \<open>
  The property names of an entity object, its own and those of its class, depend on the
  subclass and on the fields assigned so far. They are a parameter: \<open>N r k\<close> says that
  the entity object at \<open>r\<close> has a property named \<open>k\<close>. No method of the two hide
  lists adds a property to an entity object or removes one.
\<close>

type_synonym names = "ref \<Rightarrow> string \<Rightarrow> bool"

text \<open>The names found along the prototype chain that starts at a dictionary's prototype.\<close>

definition inherited :: "names \<Rightarrow> ref option \<Rightarrow> string \<Rightarrow> bool" where
  "inherited N p k =
     (k \<in> set objectPrototypeNames \<or> (case p of None \<Rightarrow> False | Some r \<Rightarrow> N r k))"

text \<open>The test \<open>k in D\<close>: an own key, or a name found along the prototype chain.\<close>

definition key_in :: "names \<Rightarrow> string \<Rightarrow> dict \<Rightarrow> bool" where
  "key_in N k D = (own D k \<noteq> None \<or> inherited N (proto D) k)"

text \<open>
  The assignment \<open>D[k] = v\<close> of an entity object, held at \<open>r\<close>. The name
  \<open>__proto__\<close> is an accessor of \<open>Object.prototype\<close>: assigning an object to it
  stores no key and makes that object the prototype of \<open>D\<close>. Under every other name
  the value becomes an own key: the names that \<open>Object.prototype\<close> and the class
  \<open>Entity\<close> offer are writable data properties, which an assignment shadows.
\<close>

definition dict_set :: "dict \<Rightarrow> string \<Rightarrow> ref \<Rightarrow> dict" where
  "dict_set D k r =
     (if k = ''__proto__'' then D\<lparr>proto := Some r\<rparr> else D\<lparr>own := (own D)(k \<mapsto> r)\<rparr>)"

text \<open>\<open>delete D[k]\<close> removes an own key and nothing else.\<close>

definition dict_delete :: "dict \<Rightarrow> string \<Rightarrow> dict" where
  "dict_delete D k = D\<lparr>own := (own D)(k := None)\<rparr>"

subsection \<open>Callbacks\<close>

text \<open>
  A function object is held by reference. A value that is no function can be stored in
  the callback field as well, since the field and the parameter of \<open>onSetPosition\<close>
  are untyped.
\<close>

type_synonym fnref = nat

datatype callback = Function fnref | NotFunction jsval

fun truthy_callback :: "callback \<Rightarrow> bool" where
  "truthy_callback (Function f) = True"
| "truthy_callback (NotFunction v) = truthy v"

text \<open>
  A call returns, raises, or does not return; in the first two cases it leaves a state.
\<close>

datatype 's outcome = Returned 's | Raised error 's | Diverged

subsection \<open>The entity\<close>

record entity =
  id_e :: int
  type_e :: string
  instance_e :: string
  x_e :: int
  y_e :: int
  oldX :: int
  oldY :: int
  setPositionCallback :: callback
  invisibles :: dict
  invisiblesIds :: "int list"
  specialState :: jsval
  customScale :: jsval
  combat :: jsval
  dead :: bool
  recentRegions :: "jsval list"
  roaming :: jsval

text \<open>The constructor.\<close>

definition new_Entity :: "int \<Rightarrow> string \<Rightarrow> string \<Rightarrow> int \<Rightarrow> int \<Rightarrow> entity" where
  "new_Entity i t inst x y =
     \<lparr> id_e = i, type_e = t, instance_e = inst, x_e = x, y_e = y,
       oldX = x, oldY = y,
       setPositionCallback = NotFunction JUndefined,
       invisibles = empty_dict,
       invisiblesIds = [],
       specialState = JUndefined,
       customScale = JUndefined,
       combat = JNull,
       dead = False,
       recentRegions = [],
       roaming = JUndefined \<rparr>"

subsection \<open>Distances and adjacency\<close>

definition getDistance :: "entity \<Rightarrow> entity \<Rightarrow> int" where
  "getDistance this entity =
     (let x = \<bar>x_e this - x_e entity\<bar>;
          y = \<bar>y_e this - y_e entity\<bar>
      in if x > y then x else y)"

definition getCoordDistance :: "entity \<Rightarrow> int \<Rightarrow> int \<Rightarrow> int" where
  "getCoordDistance this toX toY =
     (let x = \<bar>x_e this - toX\<bar>;
          y = \<bar>y_e this - toY\<bar>
      in if x > y then x else y)"

definition isNear :: "entity \<Rightarrow> entity \<Rightarrow> int \<Rightarrow> bool" where
  "isNear this entity distance =
     (let dx = \<bar>x_e this - x_e entity\<bar>;
          dy = \<bar>y_e this - y_e entity\<bar>
      in dx \<le> distance \<and> dy \<le> distance)"

text \<open>
  \<open>isSurrounding\<close> and \<open>isNonDiagonal\<close> guard their argument with \<open>entity &&\<close>:
  a null or undefined argument (\<open>None\<close>) gives a falsy result.
\<close>

fun isSurrounding :: "entity \<Rightarrow> entity option \<Rightarrow> bool" where
  "isSurrounding this None = False"
| "isSurrounding this (Some entity) = (getDistance this entity < 2)"

fun isNonDiagonal :: "entity \<Rightarrow> entity option \<Rightarrow> bool" where
  "isNonDiagonal this None = False"
| "isNonDiagonal this (Some entity) =
     (isSurrounding this (Some entity) \<and>
      \<not> (x_e entity \<noteq> x_e this \<and> y_e entity \<noteq> y_e this))"

subsection \<open>Position\<close>

text \<open>
  What a registered function does is outside the source. It is a parameter: \<open>C f\<close>
  gives, for the function object at \<open>f\<close> called as a method of the entity with no
  argument, the outcome of the call, from the entity and the state \<open>'w\<close> of everything
  else the function can reach to the entity and the state it leaves.

  \<open>setPosition\<close> assigns \<open>x\<close> and \<open>y\<close> and then, when the callback field is truthy,
  calls it; calling a truthy value that is no function raises a \<open>TypeError\<close>.
\<close>

type_synonym 'w calls = "fnref \<Rightarrow> entity \<times> 'w \<Rightarrow> (entity \<times> 'w) outcome"

definition setPosition ::
  "'w calls \<Rightarrow> entity \<Rightarrow> int \<Rightarrow> int \<Rightarrow> 'w \<Rightarrow> (entity \<times> 'w) outcome" where
  "setPosition C this x y w =
     (let this1 = this\<lparr>x_e := x\<rparr>;
          this2 = this1\<lparr>y_e := y\<rparr>
      in if truthy_callback (setPositionCallback this2)
         then (case setPositionCallback this2 of
                 Function f \<Rightarrow> C f (this2, w)
               | NotFunction v \<Rightarrow>
                   Raised (TypeError ''this.setPositionCallback is not a function'')
                     (this2, w))
         else Returned (this2, w))"

definition updatePosition :: "entity \<Rightarrow> entity" where
  "updatePosition this = (let this1 = this\<lparr>oldX := x_e this\<rparr> in this1\<lparr>oldY := y_e this1\<rparr>)"

definition onSetPosition :: "entity \<Rightarrow> callback \<Rightarrow> entity" where
  "onSetPosition this callback = this\<lparr>setPositionCallback := callback\<rparr>"

subsection \<open>The two hide lists\<close>

text \<open>
  \<open>addInvisible this r entity\<close> is the call \<open>this.addInvisible(entity)\<close> where \<open>r\<close>
  is the reference to the object \<open>entity\<close>, the value assigned under its instance.
\<close>

definition addInvisible :: "entity \<Rightarrow> ref \<Rightarrow> entity \<Rightarrow> entity" where
  "addInvisible this r entity =
     this\<lparr>invisibles := dict_set (invisibles this) (instance_e entity) r\<rparr>"

definition addInvisibleId :: "entity \<Rightarrow> int \<Rightarrow> entity" where
  "addInvisibleId this entityId = this\<lparr>invisiblesIds := invisiblesIds this @ [entityId]\<rparr>"

definition removeInvisible :: "entity \<Rightarrow> entity \<Rightarrow> entity" where
  "removeInvisible this entity =
     this\<lparr>invisibles := dict_delete (invisibles this) (instance_e entity)\<rparr>"

text \<open>\<open>Array.prototype.indexOf\<close>: the first index holding the value, or \<open>-1\<close>.\<close>

fun indexOf :: "int list \<Rightarrow> int \<Rightarrow> int" where
  "indexOf [] v = -1"
| "indexOf (a # as) v =
     (if a = v then 0 else (let i = indexOf as v in if i > -1 then i + 1 else -1))"

text \<open>\<open>xs.splice(index, 1)\<close> for an index inside the array.\<close>

definition splice1 :: "int list \<Rightarrow> int \<Rightarrow> int list" where
  "splice1 xs index = take (nat index) xs @ drop (nat index + 1) xs"

definition removeInvisibleId :: "entity \<Rightarrow> int \<Rightarrow> entity" where
  "removeInvisibleId this entityId =
     (let index = indexOf (invisiblesIds this) entityId
      in if index > -1 then this\<lparr>invisiblesIds := splice1 (invisiblesIds this) index\<rparr>
         else this)"

definition hasInvisible :: "names \<Rightarrow> entity \<Rightarrow> entity \<Rightarrow> bool" where
  "hasInvisible N this entity = key_in N (instance_e entity) (invisibles this)"

definition hasInvisibleId :: "entity \<Rightarrow> int \<Rightarrow> bool" where
  "hasInvisibleId this entityId = (indexOf (invisiblesIds this) entityId > -1)"

definition hasInvisibleInstance :: "names \<Rightarrow> entity \<Rightarrow> string \<Rightarrow> bool" where
  "hasInvisibleInstance N this inst = key_in N inst (invisibles this)"

text \<open>
  The visibility predicate the broadcast layer derives from the two lists: the target
  is hidden by instance or by id.
\<close>

definition isHidden :: "names \<Rightarrow> entity \<Rightarrow> entity \<Rightarrow> bool" where
  "isHidden N owner target =
     (hasInvisible N owner target \<or> hasInvisibleId owner (id_e target))"

definition visibleTo :: "names \<Rightarrow> entity \<Rightarrow> entity \<Rightarrow> bool" where
  "visibleTo N observer target = (\<not> isHidden N observer target)"

subsection \<open>Type tests\<close>

definition isMob :: "entity \<Rightarrow> bool" where
  "isMob this = (type_e this = ''mob'')"

definition isNPC :: "entity \<Rightarrow> bool" where
  "isNPC this = (type_e this = ''npc'')"

definition isItem :: "entity \<Rightarrow> bool" where
  "isItem this = (type_e this = ''item'')"

definition isPlayer :: "entity \<Rightarrow> bool" where
  "isPlayer this = (type_e this = ''player'')"

subsection \<open>The state snapshot\<close>

text \<open>
  The modules \<open>Mobs\<close>, \<open>NPCs\<close> and \<open>Items\<close> are imported by the source; their
  lookup functions are parameters of the model.
\<close>

record tables =
  Mobs_idToString :: "int \<Rightarrow> jsval"
  Mobs_idToName :: "int \<Rightarrow> jsval"
  NPCs_idToString :: "int \<Rightarrow> jsval"
  NPCs_idToName :: "int \<Rightarrow> jsval"
  Items_idToString :: "int \<Rightarrow> jsval"
  Items_idToName :: "int \<Rightarrow> jsval"

text \<open>
  \<open>getNameColour\<close> is a \<open>switch\<close> over six string constants, compared with strict
  equality; when no case matches the function falls off its end and returns undefined.
\<close>

definition getNameColour :: "entity \<Rightarrow> jsval" where
  "getNameColour this =
     (if specialState this = JStr ''boss'' then JStr ''#660033''
      else if specialState this = JStr ''miniboss'' then JStr ''#cc3300''
      else if specialState this = JStr ''achievementNpc'' then JStr ''#669900''
      else if specialState this = JStr ''area'' then JStr ''#00aa00''
      else if specialState this = JStr ''questNpc'' then JStr ''#6699ff''
      else if specialState this = JStr ''questMob'' then JStr ''#0099cc''
      else JUndefined)"

text \<open>
  An object literal is the list of its fields in insertion order. The assignment
  \<open>data.k = v\<close> overwrites the field \<open>k\<close> in place when it exists and appends it
  otherwise.
\<close>

fun setField :: "(string \<times> jsval) list \<Rightarrow> string \<Rightarrow> jsval \<Rightarrow> (string \<times> jsval) list" where
  "setField [] k v = [(k, v)]"
| "setField ((k', v') # fs) k v =
     (if k' = k then (k, v) # fs else (k', v') # setField fs k v)"

definition getState :: "tables \<Rightarrow> entity \<Rightarrow> (string \<times> jsval) list" where
  "getState T this =
     (let string = (if isMob this then Mobs_idToString T (id_e this)
                    else if isNPC this then NPCs_idToString T (id_e this)
                    else Items_idToString T (id_e this));
          name = (if isMob this then Mobs_idToName T (id_e this)
                  else if isNPC this then NPCs_idToName T (id_e this)
                  else Items_idToName T (id_e this));
          data = [(''type'', JStr (type_e this)),
                  (''id'', JStr (instance_e this)),
                  (''string'', string),
                  (''name'', name),
                  (''x'', JNum (of_int (x_e this))),
                  (''y'', JNum (of_int (y_e this)))];
          data1 = (if truthy (specialState this)
                   then setField data ''nameColour'' (getNameColour this) else data);
          data2 = (if truthy (customScale this)
                   then setField data1 ''customScale'' (customScale this) else data1)
      in data2)"

subsection \<open>The aggro hook\<close>

text \<open>The body is a single \<open>throw\<close>; the player argument is not inspected.\<close>

definition canAggro :: "entity \<Rightarrow> 'p \<Rightarrow> error + jsval" where
  "canAggro this player = Inl (Error ''Method not implemented.'')"

subsection \<open>Entities as objects of a world\<close>

text \<open>
  Entities are objects, held by reference. A world maps each reference to the object
  behind it; every constructor call allocates its own \<open>invisibles\<close> dictionary and
  \<open>invisiblesIds\<close> array, so each object owns the two lists of its record.
  \<open>world_addInvisible W a b\<close> is the call \<open>A.addInvisible(B)\<close> for the objects
  \<open>A\<close> at \<open>a\<close> and \<open>B\<close> at \<open>b\<close>.
\<close>

type_synonym world = "ref \<rightharpoonup> entity"

definition world_addInvisible :: "world \<Rightarrow> ref \<Rightarrow> ref \<Rightarrow> world" where
  "world_addInvisible W a b =
     (case W a of
        None \<Rightarrow> W
      | Some A \<Rightarrow> (case W b of
                     None \<Rightarrow> W
                   | Some B \<Rightarrow> W(a \<mapsto> addInvisible A b B)))"

text \<open>The visibility of the object at \<open>t\<close> to the object at \<open>obs\<close>, in a world.\<close>

definition world_visibleTo :: "names \<Rightarrow> world \<Rightarrow> ref \<Rightarrow> ref \<Rightarrow> bool option" where
  "world_visibleTo N W obs t =
     (case W obs of
        None \<Rightarrow> None
      | Some Obs \<Rightarrow> (case W t of None \<Rightarrow> None | Some T \<Rightarrow> Some (visibleTo N Obs T)))"

subsection \<open>Example values\<close>

definition skeleton_tables :: tables where
  "skeleton_tables =
     \<lparr> Mobs_idToString = (\<lambda>i. if i = 5 then JStr ''skeleton'' else JNull),
       Mobs_idToName = (\<lambda>i. if i = 5 then JStr ''Skeleton'' else JNull),
       NPCs_idToString = (\<lambda>i. JNull),
       NPCs_idToName = (\<lambda>i. JNull),
       Items_idToString = (\<lambda>i. JNull),
       Items_idToName = (\<lambda>i. JNull) \<rparr>"

definition boss_skeleton :: "entity" where
  "boss_skeleton = (new_Entity 5 ''mob'' ''m-42'' 10 12)\<lparr>specialState := JStr ''boss''\<rparr>"

definition some_player :: "entity" where
  "some_player = new_Entity 1 ''player'' ''p-1'' 3 4"

definition hiding_player :: "entity" where
  "hiding_player = addInvisible some_player 1 boss_skeleton"

definition zero_scale_skeleton :: "entity" where
  "zero_scale_skeleton = boss_skeleton\<lparr>customScale := JNum 0\<rparr>"

definition example_world :: world where
  "example_world = [0 \<mapsto> some_player, 1 \<mapsto> boss_skeleton]"

text \<open>
  The names of an object of the class \<open>Entity\<close> itself: the fields its constructor
  assigns and the methods of the class.
\<close>

definition Entity_names :: "string list" where
  "Entity_names =
     [''id'', ''type'', ''instance'', ''x'', ''y'', ''oldX'', ''oldY'', ''combat'',
      ''dead'', ''recentRegions'', ''invisibles'', ''invisiblesIds'',
      ''getCombat'', ''getDistance'', ''getCoordDistance'', ''setPosition'',
      ''updatePosition'', ''isNear'', ''isSurrounding'', ''isNonDiagonal'',
      ''hasSpecialAttack'', ''isMob'', ''isNPC'', ''isItem'', ''isPlayer'',
      ''onSetPosition'', ''addInvisible'', ''addInvisibleId'', ''removeInvisible'',
      ''removeInvisibleId'', ''hasInvisible'', ''hasInvisibleId'',
      ''hasInvisibleInstance'', ''getState'', ''getNameColour'', ''canAggro'']"

definition example_names :: names where
  "example_names r k = (k \<in> set Entity_names)"

text \<open>A player with a registered callback, the function object \<open>0\<close>.\<close>

definition watched_player :: entity where
  "watched_player = onSetPosition some_player (Function 0)"

text \<open>A callback that counts its calls and leaves the entity alone.\<close>

definition counting_calls :: "nat calls" where
  "counting_calls f s = Returned (fst s, Suc (snd s))"

text \<open>A callback that writes fields of its receiver.\<close>

definition overwriting_calls :: "unit calls" where
  "overwriting_calls f s = Returned ((fst s)\<lparr>oldX := 99, dead := True\<rparr>, snd s)"

section \<open>Properties\<close>

subsection \<open>Auxiliary facts about the id array\<close>

lemma indexOf_lower: "indexOf xs v \<ge> -1"
  by (induction xs) (auto simp: Let_def)

lemma indexOf_found_iff: "(indexOf xs v > -1) = (v \<in> set xs)"
  by (induction xs) (auto simp: Let_def)

lemma indexOf_upper: "indexOf xs v < int (length xs)"
  by (induction xs) (auto simp: Let_def)

lemma splice1_indexOf: "v \<in> set xs \<Longrightarrow> splice1 xs (indexOf xs v) = remove1 v xs"
proof (induction xs)
  case Nil
  then show ?case by simp
next
  case (Cons a as)
  show ?case
  proof (cases "a = v")
    case True
    then show ?thesis by (simp add: splice1_def)
  next
    case False
    with Cons.prems have mem: "v \<in> set as" by simp
    then have pos: "indexOf as v > -1" by (simp add: indexOf_found_iff)
    then have n: "nat (indexOf as v + 1) = Suc (nat (indexOf as v))" by simp
    from Cons.IH [OF mem] have "take (nat (indexOf as v)) as @ drop (nat (indexOf as v) + 1) as = remove1 v as"
      by (simp add: splice1_def)
    with False pos n show ?thesis by (simp add: splice1_def Let_def)
  qed
qed

lemma invisiblesIds_remove:
  "invisiblesIds (removeInvisibleId this v) = remove1 v (invisiblesIds this)"
proof (cases "v \<in> set (invisiblesIds this)")
  case True
  then show ?thesis
    by (simp add: removeInvisibleId_def Let_def indexOf_found_iff splice1_indexOf)
next
  case False
  then show ?thesis
    by (simp add: removeInvisibleId_def Let_def indexOf_found_iff remove1_idem)
qed

lemma invisiblesIds_add:
  "invisiblesIds (addInvisibleId this v) = invisiblesIds this @ [v]"
  by (simp add: addInvisibleId_def)

lemma hasInvisibleId_iff: "hasInvisibleId this v = (v \<in> set (invisiblesIds this))"
  by (simp add: hasInvisibleId_def indexOf_found_iff)

lemma map_of_setField:
  "map_of (setField fs k v) k' = (if k' = k then Some v else map_of fs k')"
  by (induction fs) auto

subsection \<open>Distances\<close>

text \<open>
  Claim C5. \<open>getDistance\<close> is the Chebyshev distance, the larger of the two absolute
  coordinate differences, and \<open>isNear a b r\<close> holds exactly when that distance is at
  most \<open>r\<close>. The equivalence holds for every integer radius, so in particular for
  every radius \<open>r \<ge> 0\<close>.
\<close>

theorem isNear_iff_getDistance:
  "getDistance a b = max \<bar>x_e a - x_e b\<bar> \<bar>y_e a - y_e b\<bar> \<and>
   isNear a b r = (getDistance a b \<le> r)"
  by (auto simp: getDistance_def isNear_def Let_def)

text \<open>
  Claim C6. For two entities, \<open>isNonDiagonal a b\<close> holds exactly when
  \<open>isSurrounding a b\<close> holds, that is \<open>getDistance a b < 2\<close>, and the two share a
  column or a row. It holds when \<open>b\<close> stands on the cell of \<open>a\<close> and fails on each
  of the four diagonal neighbours of that cell.
\<close>

theorem isNonDiagonal_iff:
  "isNonDiagonal a (Some b) =
     (isSurrounding a (Some b) \<and> (x_e a = x_e b \<or> y_e a = y_e b)) \<and>
   isSurrounding a (Some b) = (getDistance a b < 2) \<and>
   isNonDiagonal a (Some (b\<lparr>x_e := x_e a, y_e := y_e a\<rparr>)) \<and>
   \<not> isNonDiagonal a (Some (b\<lparr>x_e := x_e a + 1, y_e := y_e a + 1\<rparr>)) \<and>
   \<not> isNonDiagonal a (Some (b\<lparr>x_e := x_e a + 1, y_e := y_e a - 1\<rparr>)) \<and>
   \<not> isNonDiagonal a (Some (b\<lparr>x_e := x_e a - 1, y_e := y_e a + 1\<rparr>)) \<and>
   \<not> isNonDiagonal a (Some (b\<lparr>x_e := x_e a - 1, y_e := y_e a - 1\<rparr>))"
  by (auto simp: getDistance_def Let_def)

subsection \<open>The aggro hook\<close>

text \<open>
  Claim C4. On a base entity \<open>canAggro\<close> raises for every argument: the result is the
  error \<open>Method not implemented.\<close>, and no value is returned, neither \<open>false\<close>
  nor any other.
\<close>

theorem canAggro_raises:
  "canAggro this player = Inl (Error ''Method not implemented.'') \<and>
   canAggro this player \<noteq> Inr (JBool False) \<and>
   (\<forall>v. canAggro this player \<noteq> Inr v)"
  by (simp add: canAggro_def)

subsection \<open>Position\<close>

text \<open>
  Claim C7, as amended. \<open>setPosition x y\<close> sets the current coordinates to \<open>(x, y)\<close>
  and leaves \<open>oldX\<close>, \<open>oldY\<close> and every other field as they were; then, when a
  function is registered, it calls that function once, as a method of the entity in this
  state, and the outcome of \<open>setPosition\<close> is the outcome of that call. With no
  callback registered, and with a callback that returns and leaves the entity alone, the
  entity differs from the one before in \<open>x\<close> and \<open>y\<close> only. A truthy value that is
  no function raises after the coordinates are set. \<open>updatePosition\<close> copies the
  current coordinates into \<open>(oldX, oldY)\<close>, and no other method of the class writes
  \<open>oldX\<close> or \<open>oldY\<close> itself.
\<close>

theorem setPosition_frame:
  "(\<not> truthy_callback (setPositionCallback this) \<longrightarrow>
      setPosition C this x y w = Returned (this\<lparr>x_e := x, y_e := y\<rparr>, w)) \<and>
   (setPositionCallback this = Function f \<longrightarrow>
      setPosition C this x y w = C f (this\<lparr>x_e := x, y_e := y\<rparr>, w)) \<and>
   (setPositionCallback this = Function f \<and>
    C f (this\<lparr>x_e := x, y_e := y\<rparr>, w) = Returned (this\<lparr>x_e := x, y_e := y\<rparr>, w') \<longrightarrow>
      setPosition C this x y w = Returned (this\<lparr>x_e := x, y_e := y\<rparr>, w')) \<and>
   (setPositionCallback this = NotFunction v \<and> truthy v \<longrightarrow>
      setPosition C this x y w =
        Raised (TypeError ''this.setPositionCallback is not a function'')
          (this\<lparr>x_e := x, y_e := y\<rparr>, w)) \<and>
   setPosition C (onSetPosition this (Function f)) x y w =
     C f ((onSetPosition this (Function f))\<lparr>x_e := x, y_e := y\<rparr>, w) \<and>
   setPosition C (onSetPosition this (NotFunction JUndefined)) x y w =
     Returned ((onSetPosition this (NotFunction JUndefined))\<lparr>x_e := x, y_e := y\<rparr>, w) \<and>
   x_e (this\<lparr>x_e := x, y_e := y\<rparr>) = x \<and>
   y_e (this\<lparr>x_e := x, y_e := y\<rparr>) = y \<and>
   oldX (this\<lparr>x_e := x, y_e := y\<rparr>) = oldX this \<and>
   oldY (this\<lparr>x_e := x, y_e := y\<rparr>) = oldY this \<and>
   oldX (updatePosition this) = x_e this \<and>
   oldY (updatePosition this) = y_e this \<and>
   updatePosition this = this\<lparr>oldX := x_e this, oldY := y_e this\<rparr> \<and>
   oldX (onSetPosition this cb) = oldX this \<and>
   oldY (onSetPosition this cb) = oldY this \<and>
   oldX (addInvisible this r other) = oldX this \<and>
   oldY (addInvisible this r other) = oldY this \<and>
   oldX (removeInvisible this other) = oldX this \<and>
   oldY (removeInvisible this other) = oldY this \<and>
   oldX (addInvisibleId this i) = oldX this \<and>
   oldY (addInvisibleId this i) = oldY this \<and>
   oldX (removeInvisibleId this i) = oldX this \<and>
   oldY (removeInvisibleId this i) = oldY this"
  by (simp add: setPosition_def updatePosition_def onSetPosition_def addInvisible_def
      removeInvisible_def addInvisibleId_def removeInvisibleId_def Let_def)

theorem setPosition_frame_witness:
  "setPositionCallback watched_player = Function 0 \<and>
   counting_calls 0 (watched_player\<lparr>x_e := 5, y_e := 6\<rparr>, 0) =
     Returned (watched_player\<lparr>x_e := 5, y_e := 6\<rparr>, 1) \<and>
   setPosition counting_calls watched_player 5 6 0 =
     Returned (watched_player\<lparr>x_e := 5, y_e := 6\<rparr>, 1) \<and>
   \<not> truthy_callback (setPositionCallback some_player) \<and>
   setPosition counting_calls some_player 5 6 0 =
     Returned (some_player\<lparr>x_e := 5, y_e := 6\<rparr>, 0)"
proof -
  have h1: "setPositionCallback watched_player = Function 0"
    by (simp add: watched_player_def onSetPosition_def)
  have h2: "counting_calls 0 (watched_player\<lparr>x_e := 5, y_e := 6\<rparr>, 0) =
     Returned (watched_player\<lparr>x_e := 5, y_e := 6\<rparr>, 1)"
    by (simp add: counting_calls_def)
  have h3: "\<not> truthy_callback (setPositionCallback some_player)"
    by (simp add: some_player_def new_Entity_def)
  from h1 h2
    setPosition_frame [where this = watched_player and f = 0 and C = counting_calls
      and x = 5 and y = 6 and w = 0 and w' = 1]
  have a: "setPosition counting_calls watched_player 5 6 0 =
     Returned (watched_player\<lparr>x_e := 5, y_e := 6\<rparr>, 1)"
    by blast
  from h3 setPosition_frame [where this = some_player and C = counting_calls
      and x = 5 and y = 6 and w = 0]
  have b: "setPosition counting_calls some_player 5 6 0 =
     Returned (some_player\<lparr>x_e := 5, y_e := 6\<rparr>, 0)"
    by blast
  from h1 h2 h3 a b show ?thesis by blast
qed

text \<open>
  Claim C7 as stated fails for a registered callback that writes fields of its receiver:
  after \<open>setPosition 5 6\<close> the coordinates are \<open>(5, 6)\<close>, and \<open>oldX\<close>, which was
  \<open>3\<close>, is \<open>99\<close>, and \<open>dead\<close> is true.
\<close>

theorem setPosition_callback_writes_fields:
  "setPosition overwriting_calls watched_player 5 6 () =
     Returned (watched_player\<lparr>x_e := 5, y_e := 6, oldX := 99, dead := True\<rparr>, ()) \<and>
   oldX watched_player = 3 \<and> \<not> dead watched_player \<and>
   oldX (watched_player\<lparr>x_e := 5, y_e := 6, oldX := 99, dead := True\<rparr>) \<noteq> oldX watched_player"
  by (simp add: setPosition_def overwriting_calls_def watched_player_def onSetPosition_def
      some_player_def new_Entity_def Let_def)

subsection \<open>Hiding by id\<close>

text \<open>
  Claim C10. When the owner's id array holds no occurrence of the id, two
  \<open>addInvisibleId\<close> calls followed by one \<open>removeInvisibleId\<close> leave
  \<open>hasInvisibleId\<close> true, and only after a second \<open>removeInvisibleId\<close> is it false:
  each removal takes out one occurrence.
\<close>

theorem removeInvisibleId_one_occurrence:
  assumes "i \<notin> set (invisiblesIds this)"
  shows "hasInvisibleId (removeInvisibleId (addInvisibleId (addInvisibleId this i) i) i) i \<and>
         \<not> hasInvisibleId
             (removeInvisibleId
                (removeInvisibleId (addInvisibleId (addInvisibleId this i) i) i) i) i"
proof -
  let ?twice = "addInvisibleId (addInvisibleId this i) i"
  have ids: "invisiblesIds ?twice = invisiblesIds this @ [i, i]"
    by (simp add: invisiblesIds_add)
  from assms have once: "invisiblesIds (removeInvisibleId ?twice i) = invisiblesIds this @ [i]"
    by (simp add: invisiblesIds_remove ids remove1_append)
  from assms have none:
    "invisiblesIds (removeInvisibleId (removeInvisibleId ?twice i) i) = invisiblesIds this"
    by (simp add: invisiblesIds_remove [of "removeInvisibleId ?twice i"] once remove1_append)
  from assms show ?thesis
    by (simp add: hasInvisibleId_iff once none)
qed

theorem removeInvisibleId_one_occurrence_witness:
  "7 \<notin> set (invisiblesIds some_player) \<and>
   hasInvisibleId
     (removeInvisibleId (addInvisibleId (addInvisibleId some_player 7) 7) 7) 7 \<and>
   \<not> hasInvisibleId
       (removeInvisibleId
          (removeInvisibleId (addInvisibleId (addInvisibleId some_player 7) 7) 7) 7) 7"
proof -
  have h: "7 \<notin> set (invisiblesIds some_player)"
    by (simp add: some_player_def new_Entity_def)
  from removeInvisibleId_one_occurrence [OF h] h show ?thesis by simp
qed

text \<open>
  Claim C1, as amended. A second \<open>addInvisibleId\<close> of the same id leaves
  \<open>hasInvisibleId\<close> unchanged for every id, so the set of hidden ids is the same as
  after one call; it does append a further occurrence to the array, and after two calls
  one \<open>removeInvisibleId\<close> leaves the id hidden.
\<close>

theorem addInvisibleId_twice:
  "hasInvisibleId (addInvisibleId (addInvisibleId this i) i) j =
     hasInvisibleId (addInvisibleId this i) j \<and>
   set (invisiblesIds (addInvisibleId (addInvisibleId this i) i)) =
     set (invisiblesIds (addInvisibleId this i)) \<and>
   invisiblesIds (addInvisibleId (addInvisibleId this i) i) =
     invisiblesIds (addInvisibleId this i) @ [i] \<and>
   hasInvisibleId (removeInvisibleId (addInvisibleId (addInvisibleId this i) i) i) i"
proof -
  have "i \<in> set (remove1 i (invisiblesIds this @ [i, i]))"
    by (cases "i \<in> set (invisiblesIds this)") (simp_all add: remove1_append)
  then show ?thesis
    by (simp add: hasInvisibleId_iff invisiblesIds_add invisiblesIds_remove del: remove1_append)
qed

text \<open>
  Claim C1 as stated fails on an entity that hides nothing: after two
  \<open>addInvisibleId 7\<close> the array differs from the array after one, it holds \<open>7\<close>
  twice, and one \<open>removeInvisibleId 7\<close> leaves \<open>7\<close> hidden.
\<close>

theorem addInvisibleId_not_idempotent:
  "invisiblesIds (addInvisibleId (addInvisibleId some_player 7) 7) \<noteq>
     invisiblesIds (addInvisibleId some_player 7) \<and>
   invisiblesIds (addInvisibleId (addInvisibleId some_player 7) 7) = [7, 7] \<and>
   hasInvisibleId (removeInvisibleId (addInvisibleId (addInvisibleId some_player 7) 7) 7) 7"
  by (simp add: some_player_def new_Entity_def addInvisibleId_def removeInvisibleId_def
      hasInvisibleId_def splice1_def Let_def)

subsection \<open>Hiding by instance\<close>

lemma proto_name_inherited: "inherited N p ''__proto__''"
  by (simp add: inherited_def objectPrototypeNames_def)

lemma invisibles_roundtrip:
  "own (invisibles (removeInvisible (addInvisible obs r t) t)) =
     (own (invisibles obs))(instance_e t := None) \<and>
   proto (invisibles (removeInvisible (addInvisible obs r t) t)) =
     (if instance_e t = ''__proto__'' then Some r else proto (invisibles obs))"
  by (simp add: removeInvisible_def addInvisible_def dict_set_def dict_delete_def)

text \<open>
  Claim C2, as amended. The pair \<open>addInvisible\<close>, \<open>removeInvisible\<close> leaves no
  entry stored under the target's instance. When no entry was stored under it before
  the pair, \<open>hasInvisible\<close> and the visibility of the target have after the pair the
  value they had before, whatever names the dictionary inherits; and unless the instance
  is \<open>__proto__\<close> the observer's whole state is restored.
\<close>

theorem hide_unhide_roundtrip:
  "own (invisibles (removeInvisible (addInvisible obs r t) t)) (instance_e t) = None \<and>
   (own (invisibles obs) (instance_e t) = None \<longrightarrow>
      hasInvisible N (removeInvisible (addInvisible obs r t) t) t = hasInvisible N obs t \<and>
      (\<not> hasInvisible N (removeInvisible (addInvisible obs r t) t) t) =
        (\<not> hasInvisible N obs t) \<and>
      visibleTo N (removeInvisible (addInvisible obs r t) t) t = visibleTo N obs t \<and>
      (instance_e t \<noteq> ''__proto__'' \<longrightarrow> removeInvisible (addInvisible obs r t) t = obs))"
proof -
  let ?after = "removeInvisible (addInvisible obs r t) t"
  note rt = invisibles_roundtrip [of obs r t]
  have gone: "own (invisibles ?after) (instance_e t) = None"
    by (simp add: rt)
  have ids: "invisiblesIds ?after = invisiblesIds obs"
    by (simp add: removeInvisible_def addInvisible_def)
  have restored: "hasInvisible N ?after t = hasInvisible N obs t \<and>
      visibleTo N ?after t = visibleTo N obs t \<and>
      (instance_e t \<noteq> ''__proto__'' \<longrightarrow> ?after = obs)"
    if none: "own (invisibles obs) (instance_e t) = None"
  proof -
    from none have own_same: "own (invisibles ?after) = own (invisibles obs)"
      by (simp add: rt fun_upd_idem)
    have has: "hasInvisible N ?after t = hasInvisible N obs t"
    proof (cases "instance_e t = ''__proto__''")
      case True
      then show ?thesis
        by (simp add: hasInvisible_def key_in_def proto_name_inherited)
    next
      case False
      then show ?thesis
        by (simp add: hasInvisible_def key_in_def own_same rt)
    qed
    have vis: "visibleTo N ?after t = visibleTo N obs t"
      by (simp add: visibleTo_def isHidden_def has hasInvisibleId_def ids)
    have whole: "?after = obs" if "instance_e t \<noteq> ''__proto__''"
    proof -
      from that have "proto (invisibles ?after) = proto (invisibles obs)"
        by (simp add: rt)
      with own_same have "invisibles ?after = invisibles obs"
        by simp
      moreover have "?after = obs\<lparr>invisibles := invisibles ?after\<rparr>"
        by (simp add: removeInvisible_def addInvisible_def)
      ultimately show ?thesis by simp
    qed
    from has vis whole show ?thesis by blast
  qed
  from gone restored show ?thesis by blast
qed

theorem hide_unhide_roundtrip_witness:
  "own (invisibles some_player) (instance_e boss_skeleton) = None \<and>
   instance_e boss_skeleton \<noteq> ''__proto__'' \<and>
   removeInvisible (addInvisible some_player 1 boss_skeleton) boss_skeleton = some_player \<and>
   visibleTo example_names
       (removeInvisible (addInvisible some_player 1 boss_skeleton) boss_skeleton)
       boss_skeleton
     = visibleTo example_names some_player boss_skeleton"
proof -
  have h: "own (invisibles some_player) (instance_e boss_skeleton) = None"
    by (simp add: some_player_def new_Entity_def empty_dict_def)
  have h': "instance_e boss_skeleton \<noteq> ''__proto__''"
    by (simp add: boss_skeleton_def new_Entity_def)
  from hide_unhide_roundtrip [of some_player 1 boss_skeleton example_names] h h'
  show ?thesis by blast
qed

text \<open>
  Claim C2 as stated fails for an observer that already hides the target: before the
  pair the target is hidden, after the pair it is visible.
\<close>

theorem hide_unhide_forgets_prior:
  "hasInvisible example_names hiding_player boss_skeleton \<and>
   \<not> visibleTo example_names hiding_player boss_skeleton \<and>
   \<not> hasInvisible example_names
       (removeInvisible (addInvisible hiding_player 1 boss_skeleton) boss_skeleton)
       boss_skeleton \<and>
   visibleTo example_names
     (removeInvisible (addInvisible hiding_player 1 boss_skeleton) boss_skeleton)
     boss_skeleton"
  by (simp add: hiding_player_def some_player_def boss_skeleton_def new_Entity_def
      empty_dict_def visibleTo_def isHidden_def hasInvisible_def hasInvisibleId_def
      key_in_def inherited_def objectPrototypeNames_def
      removeInvisible_def addInvisible_def dict_set_def dict_delete_def)

text \<open>
  Claim C9. For two distinct objects \<open>A\<close> and \<open>B\<close> of a world, the call
  \<open>A.addInvisible(B)\<close> hides \<open>B\<close> from \<open>A\<close> and changes no field of \<open>B\<close>; the
  visibility of \<open>A\<close> to \<open>B\<close>, by instance and by id, is the same after the call as
  before.
\<close>

theorem addInvisible_asymmetric:
  assumes "a \<noteq> b" and "W a = Some A" and "W b = Some B"
  shows "world_addInvisible W a b b = Some B \<and>
         world_addInvisible W a b a = Some (addInvisible A b B) \<and>
         hasInvisible N (addInvisible A b B) B \<and>
         hasInvisible N B (addInvisible A b B) = hasInvisible N B A \<and>
         hasInvisibleId B (id_e (addInvisible A b B)) = hasInvisibleId B (id_e A) \<and>
         world_visibleTo N (world_addInvisible W a b) b a = world_visibleTo N W b a \<and>
         world_visibleTo N W b a =
           Some (\<not> hasInvisible N B A \<and> \<not> hasInvisibleId B (id_e A))"
proof -
  have inst: "instance_e (addInvisible A b B) = instance_e A"
    and ident: "id_e (addInvisible A b B) = id_e A"
    by (simp_all add: addInvisible_def)
  from assms have atb: "world_addInvisible W a b b = Some B"
    and ata: "world_addInvisible W a b a = Some (addInvisible A b B)"
    by (simp_all add: world_addInvisible_def)
  have hid: "hasInvisible N (addInvisible A b B) B"
  proof (cases "instance_e B = ''__proto__''")
    case True
    then show ?thesis
      by (simp add: hasInvisible_def key_in_def proto_name_inherited)
  next
    case False
    then show ?thesis
      by (simp add: hasInvisible_def key_in_def addInvisible_def dict_set_def)
  qed
  have same: "hasInvisible N B (addInvisible A b B) = hasInvisible N B A"
    by (simp add: hasInvisible_def inst)
  have vis: "visibleTo N B (addInvisible A b B) = visibleTo N B A"
    by (simp add: visibleTo_def isHidden_def same ident)
  from assms atb ata vis
  have "world_visibleTo N (world_addInvisible W a b) b a = world_visibleTo N W b a"
    by (simp add: world_visibleTo_def)
  moreover from assms
  have "world_visibleTo N W b a =
          Some (\<not> hasInvisible N B A \<and> \<not> hasInvisibleId B (id_e A))"
    by (simp add: world_visibleTo_def visibleTo_def isHidden_def)
  ultimately show ?thesis
    using atb ata hid same by (simp add: ident)
qed

theorem addInvisible_asymmetric_witness:
  "(0::nat) \<noteq> 1 \<and> example_world 0 = Some some_player \<and>
   example_world 1 = Some boss_skeleton \<and>
   world_addInvisible example_world 0 1 1 = Some boss_skeleton \<and>
   hasInvisible example_names (addInvisible some_player 1 boss_skeleton) boss_skeleton \<and>
   world_visibleTo example_names (world_addInvisible example_world 0 1) 1 0 =
     world_visibleTo example_names example_world 1 0"
proof -
  have h1: "(0::nat) \<noteq> 1" by simp
  have h2: "example_world 0 = Some some_player" by (simp add: example_world_def)
  have h3: "example_world 1 = Some boss_skeleton" by (simp add: example_world_def)
  from addInvisible_asymmetric [OF h1 h2 h3, of example_names] h1 h2 h3
  show ?thesis by simp
qed

subsection \<open>The state snapshot\<close>

text \<open>
  Claim C3. For a mob with id \<open>5\<close>, instance \<open>m-42\<close>, position \<open>(10, 12)\<close>, special
  state \<open>boss\<close> and no custom scale, where the mob tables give \<open>skeleton\<close> and
  \<open>Skeleton\<close> for id \<open>5\<close>, \<open>getState\<close> returns exactly the seven fields of the
  example, in this order; the field \<open>id\<close> holds the instance and there is no field
  \<open>customScale\<close>.
\<close>

theorem getState_boss_skeleton:
  assumes "type_e this = ''mob''" and "id_e this = 5" and "instance_e this = ''m-42''"
    and "x_e this = 10" and "y_e this = 12"
    and "specialState this = JStr ''boss''" and "customScale this = JUndefined"
    and "Mobs_idToString T 5 = JStr ''skeleton''" and "Mobs_idToName T 5 = JStr ''Skeleton''"
  shows "getState T this =
           [(''type'', JStr ''mob''), (''id'', JStr ''m-42''),
            (''string'', JStr ''skeleton''), (''name'', JStr ''Skeleton''),
            (''x'', JNum 10), (''y'', JNum 12), (''nameColour'', JStr ''#660033'')] \<and>
         map_of (getState T this) ''customScale'' = None"
  using assms by (simp add: getState_def getNameColour_def isMob_def Let_def)

theorem getState_boss_skeleton_witness:
  "type_e boss_skeleton = ''mob'' \<and> id_e boss_skeleton = 5 \<and>
   instance_e boss_skeleton = ''m-42'' \<and> x_e boss_skeleton = 10 \<and> y_e boss_skeleton = 12 \<and>
   specialState boss_skeleton = JStr ''boss'' \<and> customScale boss_skeleton = JUndefined \<and>
   Mobs_idToString skeleton_tables 5 = JStr ''skeleton'' \<and>
   Mobs_idToName skeleton_tables 5 = JStr ''Skeleton'' \<and>
   getState skeleton_tables boss_skeleton =
     [(''type'', JStr ''mob''), (''id'', JStr ''m-42''),
      (''string'', JStr ''skeleton''), (''name'', JStr ''Skeleton''),
      (''x'', JNum 10), (''y'', JNum 12), (''nameColour'', JStr ''#660033'')]"
proof -
  have h1: "type_e boss_skeleton = ''mob''"
    and h2: "id_e boss_skeleton = 5"
    and h3: "instance_e boss_skeleton = ''m-42''"
    and h4: "x_e boss_skeleton = 10"
    and h5: "y_e boss_skeleton = 12"
    and h6: "specialState boss_skeleton = JStr ''boss''"
    and h7: "customScale boss_skeleton = JUndefined"
    by (simp_all add: boss_skeleton_def new_Entity_def)
  have h8: "Mobs_idToString skeleton_tables 5 = JStr ''skeleton''"
    and h9: "Mobs_idToName skeleton_tables 5 = JStr ''Skeleton''"
    by (simp_all add: skeleton_tables_def)
  from getState_boss_skeleton [OF h1 h2 h3 h4 h5 h6 h7 h8 h9]
  have "getState skeleton_tables boss_skeleton =
     [(''type'', JStr ''mob''), (''id'', JStr ''m-42''),
      (''string'', JStr ''skeleton''), (''name'', JStr ''Skeleton''),
      (''x'', JNum 10), (''y'', JNum 12), (''nameColour'', JStr ''#660033'')]"
    by (rule conjunct1)
  with h1 h2 h3 h4 h5 h6 h7 h8 h9 show ?thesis by blast
qed

text \<open>
  Claim C8, as amended. The snapshot has the field \<open>nameColour\<close> exactly when
  \<open>specialState\<close> is truthy, and then with the value of \<open>getNameColour\<close>: the fixed
  colour for each of the six states. It has the field \<open>customScale\<close> exactly when
  \<open>customScale\<close> is truthy, and then with the entity's value unchanged. An unset
  field is not truthy, and a number is truthy exactly when it is not zero.
\<close>

theorem getState_optional_fields:
  "map_of (getState T this) ''nameColour'' =
     (if truthy (specialState this) then Some (getNameColour this) else None) \<and>
   map_of (getState T this) ''customScale'' =
     (if truthy (customScale this) then Some (customScale this) else None) \<and>
   (''nameColour'' \<in> fst ` set (getState T this)) = truthy (specialState this) \<and>
   (''customScale'' \<in> fst ` set (getState T this)) = truthy (customScale this) \<and>
   \<not> truthy JUndefined \<and> truthy (JNum n) = (n \<noteq> 0) \<and>
   truthy (JStr ''boss'') \<and>
   getNameColour (this\<lparr>specialState := JStr ''boss''\<rparr>) = JStr ''#660033'' \<and>
   truthy (JStr ''miniboss'') \<and>
   getNameColour (this\<lparr>specialState := JStr ''miniboss''\<rparr>) = JStr ''#cc3300'' \<and>
   truthy (JStr ''achievementNpc'') \<and>
   getNameColour (this\<lparr>specialState := JStr ''achievementNpc''\<rparr>) = JStr ''#669900'' \<and>
   truthy (JStr ''area'') \<and>
   getNameColour (this\<lparr>specialState := JStr ''area''\<rparr>) = JStr ''#00aa00'' \<and>
   truthy (JStr ''questNpc'') \<and>
   getNameColour (this\<lparr>specialState := JStr ''questNpc''\<rparr>) = JStr ''#6699ff'' \<and>
   truthy (JStr ''questMob'') \<and>
   getNameColour (this\<lparr>specialState := JStr ''questMob''\<rparr>) = JStr ''#0099cc''"
proof -
  have colour: "map_of (getState T this) ''nameColour'' =
     (if truthy (specialState this) then Some (getNameColour this) else None)"
    by (simp add: getState_def Let_def map_of_setField)
  have scale: "map_of (getState T this) ''customScale'' =
     (if truthy (customScale this) then Some (customScale this) else None)"
    by (simp add: getState_def Let_def map_of_setField)
  have present: "(k \<in> fst ` set (getState T this)) = (map_of (getState T this) k \<noteq> None)" for k
    by (simp add: map_of_eq_None_iff)
  have colours:
    "getNameColour (this\<lparr>specialState := JStr ''boss''\<rparr>) = JStr ''#660033''"
    "getNameColour (this\<lparr>specialState := JStr ''miniboss''\<rparr>) = JStr ''#cc3300''"
    "getNameColour (this\<lparr>specialState := JStr ''achievementNpc''\<rparr>) = JStr ''#669900''"
    "getNameColour (this\<lparr>specialState := JStr ''area''\<rparr>) = JStr ''#00aa00''"
    "getNameColour (this\<lparr>specialState := JStr ''questNpc''\<rparr>) = JStr ''#6699ff''"
    "getNameColour (this\<lparr>specialState := JStr ''questMob''\<rparr>) = JStr ''#0099cc''"
    by (simp_all add: getNameColour_def)
  show ?thesis
    unfolding present colour scale colours by simp
qed

text \<open>
  Claim C8 as stated fails for a custom scale of \<open>0\<close>: the field is set on the
  entity and the snapshot has no field \<open>customScale\<close>.
\<close>

theorem getState_drops_zero_scale:
  "customScale zero_scale_skeleton = JNum 0 \<and>
   customScale zero_scale_skeleton \<noteq> JUndefined \<and>
   map_of (getState skeleton_tables zero_scale_skeleton) ''customScale'' = None \<and>
   ''customScale'' \<notin> fst ` set (getState skeleton_tables zero_scale_skeleton)"
  by (simp add: zero_scale_skeleton_def boss_skeleton_def new_Entity_def getState_def
      getNameColour_def isMob_def skeleton_tables_def Let_def)

end
